theory Spec2Isabelle
  imports Main "HOL-Library.Word"
begin

section \<open>prodoh: a DNS to DNS-over-HTTPS proxy\<close>

text \<open>
  A shallow embedding of \<^verbatim>\<open>prodoh.go\<close>. Pure functions of the program are HOL functions.
  The network, the JSON decoder and the zone-file parser are not part of the program:
  they are parameters of the model (record \<open>deps\<close>). Effects (an HTTP round trip, a log
  line, a DNS message written to the client) are appended, in program order, to a trace
  carried in the state.
\<close>

subsection \<open>Machine integers and errors\<close>

type_synonym uint16 = "16 word"
type_synonym int64 = "64 word"

text \<open>
  A Go \<^verbatim>\<open>error\<close> value. The program creates two of them itself, with \<^verbatim>\<open>fmt.Errorf\<close>:
  \<^verbatim>\<open>"Unsupported type %d"\<close> (in \<^verbatim>\<open>typeToString\<close>) and \<^verbatim>\<open>"DOH failed response code %d"\<close>
  (in \<^verbatim>\<open>DoHQuery\<close>); each keeps the number it was formatted with. Every other error is
  handed up unchanged from \<^verbatim>\<open>net/http\<close>, \<^verbatim>\<open>encoding/json\<close> or the DNS library and is
  kept as its message.
\<close>

datatype error =
    UnsupportedType uint16
  | DOHFailedResponseCode int
  | LibraryError string

subsection \<open>Record type codes\<close>

text \<open>
  The constants \<^verbatim>\<open>dns.TypeA\<close>, ... of the imported DNS library, which are the type codes
  assigned by the DNS RFCs (RFC 1035: A, NS, CNAME, SOA, PTR, MX, TXT, ANY; RFC 3596:
  AAAA; RFC 4408: SPF).
\<close>

definition TypeA :: uint16 where "TypeA = 1"
definition TypeNS :: uint16 where "TypeNS = 2"
definition TypeCNAME :: uint16 where "TypeCNAME = 5"
definition TypeSOA :: uint16 where "TypeSOA = 6"
definition TypePTR :: uint16 where "TypePTR = 12"
definition TypeMX :: uint16 where "TypeMX = 15"
definition TypeTXT :: uint16 where "TypeTXT = 16"
definition TypeAAAA :: uint16 where "TypeAAAA = 28"
definition TypeSPF :: uint16 where "TypeSPF = 99"
definition TypeANY :: uint16 where "TypeANY = 255"

text \<open>\<^verbatim>\<open>typeToString\<close>: the \<^verbatim>\<open>switch\<close>, case by case in the order of the source.\<close>

definition typeToString :: "uint16 \<Rightarrow> error + string" where
  "typeToString dnsType =
     (if dnsType = TypeA then Inr ''A''
      else if dnsType = TypeAAAA then Inr ''AAAA''
      else if dnsType = TypeCNAME then Inr ''CNAME''
      else if dnsType = TypeMX then Inr ''MX''
      else if dnsType = TypeTXT then Inr ''TXT''
      else if dnsType = TypeSPF then Inr ''SPF''
      else if dnsType = TypeNS then Inr ''NS''
      else if dnsType = TypeSOA then Inr ''SOA''
      else if dnsType = TypePTR then Inr ''PTR''
      else if dnsType = TypeANY then Inr ''ANY''
      else Inl (UnsupportedType dnsType))"

text \<open>The supported set, as the specification lists it.\<close>

definition supported_types :: "uint16 list" where
  "supported_types =
     [TypeA, TypeAAAA, TypeCNAME, TypeMX, TypeTXT, TypeSPF, TypeNS, TypeSOA, TypePTR, TypeANY]"

subsection \<open>Strings\<close>

text \<open>
  \<^verbatim>\<open>strings.TrimSpace\<close> on the white space of ASCII (tab, line feed, vertical tab, form
  feed, carriage return, space).
  Go also trims the white space of Unicode beyond ASCII; the program only
  applies the function to the ten mnemonics of the type mapper, which are ASCII.
\<close>

definition isSpace :: "char \<Rightarrow> bool" where
  "isSpace c = (c \<in> set [CHR 0x09, CHR 0x0A, CHR 0x0B, CHR 0x0C, CHR 0x0D, CHR '' ''])"

definition TrimSpace :: "string \<Rightarrow> string" where
  "TrimSpace s = rev (dropWhile isSpace (rev (dropWhile isSpace s)))"

text \<open>The verb \<^verbatim>\<open>%d\<close> of \<^verbatim>\<open>fmt\<close>: decimal digits, with a minus sign below zero.\<close>

definition digit_char :: "nat \<Rightarrow> char" where
  "digit_char d = ''0123456789'' ! d"

function decimal :: "nat \<Rightarrow> string" where
  "decimal n = (if n < 10 then [digit_char n] else decimal (n div 10) @ [digit_char (n mod 10)])"
  by pat_completeness auto
termination
  by (relation "measure (\<lambda>n. n)") auto

declare decimal.simps [simp del]

definition format_d :: "int \<Rightarrow> string" where
  "format_d i = (if i < 0 then CHR ''-'' # decimal (nat (- i)) else decimal (nat i))"

subsection \<open>The JSON envelope of a DoH answer\<close>

record Question =
  Question_Name :: string
  Question_Type :: int

record Answer =
  Answer_Name :: string
  Answer_Type :: uint16
  Answer_TTL :: int
  Answer_Data :: string

record Response =
  Status :: int
  TC :: bool
  RD :: bool
  RA :: bool
  AD :: bool
  CD :: bool
  Response_Question :: "Question list"
  Response_Answer :: "Answer list"

subsection \<open>DNS messages (types of the imported DNS library)\<close>

text \<open>
  \<^verbatim>\<open>dns.Question\<close> and \<^verbatim>\<open>dns.Msg\<close> (the header \<^verbatim>\<open>dns.MsgHdr\<close> is embedded in it). A
  resource record \<^verbatim>\<open>dns.RR\<close> is the type parameter \<open>'rr\<close>: the program only gets
  records from \<^verbatim>\<open>dns.NewRR\<close> and appends them to a message.
\<close>

record dns_Question =
  Name :: string
  Qtype :: uint16
  Qclass :: uint16

record 'rr Msg =
  Msg_Id :: uint16
  Msg_Response :: bool
  Msg_Opcode :: int
  Msg_Authoritative :: bool
  Msg_Truncated :: bool
  Msg_RecursionDesired :: bool
  Msg_RecursionAvailable :: bool
  Msg_Zero :: bool
  Msg_AuthenticatedData :: bool
  Msg_CheckingDisabled :: bool
  Msg_Rcode :: int
  Msg_Compress :: bool
  Msg_Question :: "dns_Question list"
  Msg_Answer :: "'rr list"
  Msg_Ns :: "'rr list"
  Msg_Extra :: "'rr list"

definition OpcodeQuery :: int where "OpcodeQuery = 0"
definition RcodeSuccess :: int where "RcodeSuccess = 0"
definition RcodeServerFailure :: int where "RcodeServerFailure = 2"

text \<open>\<^verbatim>\<open>new(dns.Msg)\<close>: every field has its zero value.\<close>

definition new_Msg :: "'rr Msg" where
  "new_Msg = \<lparr>Msg_Id = 0, Msg_Response = False, Msg_Opcode = 0, Msg_Authoritative = False,
     Msg_Truncated = False, Msg_RecursionDesired = False, Msg_RecursionAvailable = False,
     Msg_Zero = False, Msg_AuthenticatedData = False, Msg_CheckingDisabled = False,
     Msg_Rcode = 0, Msg_Compress = False, Msg_Question = [], Msg_Answer = [], Msg_Ns = [],
     Msg_Extra = []\<rparr>"

text \<open>
  \<^verbatim>\<open>(*dns.Msg).SetReply\<close> of the DNS library: the reply takes the identifier and the
  opcode of the request, is marked as a response with response code success, copies the
  bits RD and CD of a standard query, and carries the first question of the request.
\<close>

definition SetReply :: "'rr Msg \<Rightarrow> 'rr Msg \<Rightarrow> 'rr Msg" where
  "SetReply dns request =
     dns\<lparr>Msg_Id := Msg_Id request,
         Msg_Response := True,
         Msg_Opcode := Msg_Opcode request,
         Msg_RecursionDesired :=
           (if Msg_Opcode request = OpcodeQuery then Msg_RecursionDesired request
            else Msg_RecursionDesired dns),
         Msg_CheckingDisabled :=
           (if Msg_Opcode request = OpcodeQuery then Msg_CheckingDisabled request
            else Msg_CheckingDisabled dns),
         Msg_Rcode := RcodeSuccess,
         Msg_Question :=
           (case Msg_Question request of [] \<Rightarrow> Msg_Question dns | q # _ \<Rightarrow> [q])\<rparr>"

text \<open>\<^verbatim>\<open>(*dns.Msg).SetRcode\<close> of the DNS library: \<^verbatim>\<open>SetReply\<close>, then the response code.\<close>

definition SetRcode :: "'rr Msg \<Rightarrow> 'rr Msg \<Rightarrow> int \<Rightarrow> 'rr Msg" where
  "SetRcode dns request rcode = (SetReply dns request)\<lparr>Msg_Rcode := rcode\<rparr>"

subsection \<open>Effects and state\<close>

text \<open>
  \<^verbatim>\<open>context.Background()\<close>, or \<^verbatim>\<open>context.WithTimeout\<close> of it with a duration in
  nanoseconds (\<^verbatim>\<open>time.Duration\<close> is an \<^verbatim>\<open>int64\<close>).
\<close>

datatype ctx = Background | WithTimeout int64

definition Second :: int64 where "Second = 1000000000"

record http_request =
  req_ctx :: ctx
  req_method :: string
  req_url :: string
  req_header :: "(string \<times> string) list"
  req_query :: "(string \<times> string) list"

text \<open>
  What the program does to the outside, in the order in which it does it: a request
  handed to \<^verbatim>\<open>client.Do\<close>, a line \<^verbatim>\<open>"%s DOH Query Failed: %v"\<close> given to \<^verbatim>\<open>log.Printf\<close>
  (the upstream and the error), a message given to \<^verbatim>\<open>w.WriteMsg\<close>.
\<close>

datatype 'rr event =
    ClientDo http_request
  | Logged string error
  | Written "'rr Msg"

record ('w, 'rr) state =
  world :: 'w
  trace :: "'rr event list"

definition emit :: "'rr event \<Rightarrow> ('w, 'rr) state \<Rightarrow> ('w, 'rr) state" where
  "emit e s = s\<lparr>trace := trace s @ [e]\<rparr>"

text \<open>
  The libraries and the network the program calls:
  \<^item> \<open>url_Parse\<close>: the error, if any, with which \<^verbatim>\<open>http.NewRequestWithContext\<close> refuses
    the URL of the upstream;
  \<^item> \<open>client_Do\<close>: \<^verbatim>\<open>client.Do\<close> followed by \<^verbatim>\<open>ioutil.ReadAll\<close> of the body: the bytes of
    the body or an error, and the network afterwards;
  \<^item> \<open>json_Decode\<close>: \<^verbatim>\<open>json.NewDecoder(...).Decode\<close> into a \<^verbatim>\<open>Response\<close>;
  \<^item> \<open>dns_NewRR\<close>: \<^verbatim>\<open>dns.NewRR\<close>, the parser of one line of master-file text.
\<close>

record ('w, 'rr) deps =
  url_Parse :: "string \<Rightarrow> error option"
  client_Do :: "http_request \<Rightarrow> 'w \<Rightarrow> (error + string) \<times> 'w"
  json_Decode :: "string \<Rightarrow> error + Response"
  dns_NewRR :: "string \<Rightarrow> error + 'rr"

text \<open>The command-line flags, global variables of the program.\<close>

record flags =
  timeout :: int64
  address :: string
  upstreams :: "string list"

text \<open>
  \<^verbatim>\<open>(*flagStringList).Set\<close>, which the flag package calls once for each \<^verbatim>\<open>-upstream\<close> of
  the command line, from left to right.
\<close>

definition flagStringList_Set :: "string list \<Rightarrow> string \<Rightarrow> string list" where
  "flagStringList_Set i v = i @ [v]"

subsection \<open>The DoH client\<close>

text \<open>
  \<^verbatim>\<open>httpGet\<close>. The parameters are a Go map with the two keys \<open>name\<close> and \<open>type\<close>;
  \<^verbatim>\<open>q.Encode()\<close> sorts by key, so the order of the iteration over the map does not show.
\<close>

definition httpGet ::
  "('w, 'rr) deps \<Rightarrow> ctx \<Rightarrow> string \<Rightarrow> (string \<times> string) list \<Rightarrow> ('w, 'rr) state
     \<Rightarrow> (error + string) \<times> ('w, 'rr) state" where
  "httpGet deps c upstream params s =
     (case url_Parse deps upstream of
        Some err \<Rightarrow> (Inl err, s)
      | None \<Rightarrow>
          (let req = \<lparr>req_ctx = c, req_method = ''GET'', req_url = upstream,
                      req_header = [(''Accept'', ''application/dns-json'')],
                      req_query = params\<rparr>;
               s1 = emit (ClientDo req) s;
               (r, w) = client_Do deps req (world s1)
           in (r, s1\<lparr>world := w\<rparr>)))"

text \<open>The context of the request (lines 126 to 131 of \<^verbatim>\<open>DoHQuery\<close>).\<close>

definition DoHQuery_ctx :: "int64 \<Rightarrow> ctx" where
  "DoHQuery_ctx tmo = (if 0 <s tmo then WithTimeout (tmo * Second) else Background)"

text \<open>\<^verbatim>\<open>fmt.Sprintf("%s %d IN %s %s", answer.Name, answer.TTL, t, answer.Data)\<close>\<close>

definition Sprintf_answer :: "string \<Rightarrow> int \<Rightarrow> string \<Rightarrow> string \<Rightarrow> string" where
  "Sprintf_answer name ttl t data =
     name @ '' '' @ format_d ttl @ '' IN '' @ t @ '' '' @ data"

text \<open>The loop over \<^verbatim>\<open>rr.Answer\<close>; \<open>rrs\<close> is the slice built so far.\<close>

fun DoHQuery_answers ::
  "('w, 'rr) deps \<Rightarrow> Answer list \<Rightarrow> 'rr list \<Rightarrow> error + 'rr list" where
  "DoHQuery_answers deps [] rrs = Inr rrs"
| "DoHQuery_answers deps (answer # rest) rrs =
     (case typeToString (Answer_Type answer) of
        Inl err \<Rightarrow> Inl err
      | Inr t \<Rightarrow>
          (case dns_NewRR deps
                  (Sprintf_answer (Answer_Name answer) (Answer_TTL answer) t (Answer_Data answer)) of
             Inl err \<Rightarrow> Inl err
           | Inr rr \<Rightarrow> DoHQuery_answers deps rest (rrs @ [rr])))"

definition DoHQuery ::
  "('w, 'rr) deps \<Rightarrow> int64 \<Rightarrow> string \<Rightarrow> string \<Rightarrow> uint16 \<Rightarrow> ('w, 'rr) state
     \<Rightarrow> (error + 'rr list) \<times> ('w, 'rr) state" where
  "DoHQuery deps tmo upstream name dnsType s =
     (case typeToString dnsType of
        Inl err \<Rightarrow> (Inl err, s)
      | Inr t \<Rightarrow>
          (let c = DoHQuery_ctx tmo;
               params = [(''name'', name), (''type'', TrimSpace t)]
           in case httpGet deps c upstream params s of
                (Inl err, s') \<Rightarrow> (Inl err, s')
              | (Inr body, s') \<Rightarrow>
                  (case json_Decode deps body of
                     Inl err \<Rightarrow> (Inl err, s')
                   | Inr rr \<Rightarrow>
                       if Status rr \<noteq> 0
                       then (Inl (DOHFailedResponseCode (Status rr)), s')
                       else (DoHQuery_answers deps (Response_Answer rr) [], s'))))"

subsection \<open>The DNS handler\<close>

definition WriteMsg :: "'rr Msg \<Rightarrow> ('w, 'rr) state \<Rightarrow> ('w, 'rr) state" where
  "WriteMsg m s = emit (Written m) s"

text \<open>
  \<^verbatim>\<open>dns.HandleFailed\<close> of the DNS library: it writes a fresh message set, with \<^verbatim>\<open>SetRcode\<close>,
  to the reply to the request with response code SERVFAIL.
\<close>

definition HandleFailed :: "'rr Msg \<Rightarrow> ('w, 'rr) state \<Rightarrow> ('w, 'rr) state" where
  "HandleFailed r s = WriteMsg (SetRcode new_Msg r RcodeServerFailure) s"

text \<open>
  \<^verbatim>\<open>parseQuery\<close>. Each of its two nested loops is a function that returns \<open>Some\<close> of the
  message when the \<^verbatim>\<open>return\<close> inside the loops was taken, and \<open>None\<close> when the loop ran
  to its end.
\<close>

fun parseQuery_upstreams ::
  "('w, 'rr) deps \<Rightarrow> int64 \<Rightarrow> 'rr Msg \<Rightarrow> dns_Question \<Rightarrow> string list \<Rightarrow> ('w, 'rr) state
     \<Rightarrow> 'rr Msg option \<times> ('w, 'rr) state" where
  "parseQuery_upstreams deps tmo m q [] s = (None, s)"
| "parseQuery_upstreams deps tmo m q (upstream # rest) s =
     (case DoHQuery deps tmo upstream (Name q) (Qtype q) s of
        (Inl err, s') \<Rightarrow> parseQuery_upstreams deps tmo m q rest (emit (Logged upstream err) s')
      | (Inr rsp, s') \<Rightarrow>
          (Some (foldl (\<lambda>m rr. m\<lparr>Msg_Answer := Msg_Answer m @ [rr]\<rparr>) m rsp), s'))"

fun parseQuery_questions ::
  "('w, 'rr) deps \<Rightarrow> flags \<Rightarrow> 'rr Msg \<Rightarrow> dns_Question list \<Rightarrow> ('w, 'rr) state
     \<Rightarrow> 'rr Msg option \<times> ('w, 'rr) state" where
  "parseQuery_questions deps fl m [] s = (None, s)"
| "parseQuery_questions deps fl m (q # qs) s =
     (case parseQuery_upstreams deps (timeout fl) m q (upstreams fl) s of
        (Some m', s') \<Rightarrow> (Some m', s')
      | (None, s') \<Rightarrow> parseQuery_questions deps fl m qs s')"

definition parseQuery ::
  "('w, 'rr) deps \<Rightarrow> flags \<Rightarrow> 'rr Msg \<Rightarrow> 'rr Msg \<Rightarrow> ('w, 'rr) state
     \<Rightarrow> 'rr Msg \<times> ('w, 'rr) state" where
  "parseQuery deps fl m req s =
     (case parseQuery_questions deps fl m (Msg_Question m) s of
        (Some m', s') \<Rightarrow> (m', s')
      | (None, s') \<Rightarrow> (m, HandleFailed req s'))"

definition handleDnsRequest ::
  "('w, 'rr) deps \<Rightarrow> flags \<Rightarrow> 'rr Msg \<Rightarrow> ('w, 'rr) state \<Rightarrow> ('w, 'rr) state" where
  "handleDnsRequest deps fl req s =
     (if length (Msg_Question req) = 0 then HandleFailed req s
      else
        (let m = (SetReply new_Msg req)\<lparr>Msg_Compress := False\<rparr>;
             (m', s') = (if Msg_Opcode req = OpcodeQuery then parseQuery deps fl m req s
                         else (m, s))
         in WriteMsg m' s'))"

subsection \<open>The upstream selector of the specification\<close>

text \<open>
  Written after the words of the specification (4.3), for a list of attempts, each a
  question and an upstream: the attempts are made in the order of the list; the first
  that succeeds ends the run with its records; a failure is logged and the run goes on
  with the next attempt. The result is \<open>None\<close> when every attempt failed.
\<close>

fun first_success ::
  "('w, 'rr) deps \<Rightarrow> int64 \<Rightarrow> (dns_Question \<times> string) list \<Rightarrow> ('w, 'rr) state
     \<Rightarrow> 'rr list option \<times> ('w, 'rr) state" where
  "first_success deps tmo [] s = (None, s)"
| "first_success deps tmo ((q, upstream) # rest) s =
     (case DoHQuery deps tmo upstream (Name q) (Qtype q) s of
        (Inl err, s') \<Rightarrow> first_success deps tmo rest (emit (Logged upstream err) s')
      | (Inr rsp, s') \<Rightarrow> (Some rsp, s'))"

subsection \<open>Reading a trace\<close>

text \<open>The messages written to the client, and the HTTP requests made, in order.\<close>

fun written :: "'rr event list \<Rightarrow> 'rr Msg list" where
  "written [] = []"
| "written (Written m # es) = m # written es"
| "written (_ # es) = written es"

fun requests :: "'rr event list \<Rightarrow> http_request list" where
  "requests [] = []"
| "requests (ClientDo r # es) = r # requests es"
| "requests (_ # es) = requests es"

subsection \<open>A stub network, for concrete runs\<close>

text \<open>
  Four upstreams, named by their URL: \<open>down\<close> refuses the connection; the others answer
  with a body that decodes to: one A record (\<open>one\<close>), status 0 and no answer (\<open>empty\<close>),
  status 2 beside an answer (\<open>status2\<close>), status 0 with a second answer of type 3, which
  the type mapper does not know (\<open>badtype\<close>). The network counts the round trips made; a
  resource record is its line of master-file text.
\<close>

definition example_answer :: Answer where
  "example_answer = \<lparr>Answer_Name = ''example.com.'', Answer_Type = 1, Answer_TTL = 300,
     Answer_Data = ''93.184.216.34''\<rparr>"

definition example_envelope :: "int \<Rightarrow> Answer list \<Rightarrow> Response" where
  "example_envelope st as = \<lparr>Status = st, TC = False, RD = True, RA = True, AD = False,
     CD = False, Response_Question = [], Response_Answer = as\<rparr>"

definition stub_deps :: "(nat, string) deps" where
  "stub_deps = \<lparr>
     url_Parse = (\<lambda>u. None),
     client_Do = (\<lambda>req n.
       (if req_url req = ''down'' then Inl (LibraryError ''connection refused'')
        else Inr (req_url req), Suc n)),
     json_Decode = (\<lambda>body.
       if body = ''one'' then Inr (example_envelope 0 [example_answer])
       else if body = ''empty'' then Inr (example_envelope 0 [])
       else if body = ''status2'' then Inr (example_envelope 2 [example_answer])
       else if body = ''badtype''
         then Inr (example_envelope 0 [example_answer, example_answer\<lparr>Answer_Type := 3\<rparr>])
       else Inl (LibraryError ''invalid character'')),
     dns_NewRR = (\<lambda>line. Inr line)\<rparr>"

definition stub_flags :: "string list \<Rightarrow> flags" where
  "stub_flags ups = \<lparr>timeout = 10, address = '':5354'', upstreams = ups\<rparr>"

definition stub_start :: "(nat, string) state" where
  "stub_start = \<lparr>world = 0, trace = []\<rparr>"

definition example_question :: dns_Question where
  "example_question = \<lparr>Name = ''example.com.'', Qtype = 1, Qclass = 1\<rparr>"

definition example_request :: "int \<Rightarrow> dns_Question list \<Rightarrow> string Msg" where
  "example_request opcode qs =
     new_Msg\<lparr>Msg_Id := 4660, Msg_Opcode := opcode, Msg_RecursionDesired := True,
             Msg_Question := qs\<rparr>"

text \<open>
  A message with two questions, the first of a type (3) that the type mapper does not
  know, to run \<^verbatim>\<open>parseQuery\<close> on more than one question.
\<close>

definition two_questions :: "string Msg" where
  "two_questions = (SetReply new_Msg (example_request 0 [example_question]))
     \<lparr>Msg_Compress := False,
      Msg_Question := [example_question\<lparr>Qtype := 3\<rparr>, example_question]\<rparr>"

text \<open>
  A network whose first round trip fails and whose later ones answer, as when an upstream
  is slow once: whether a call fails depends on the state in which it is made.
\<close>

definition flaky_deps :: "(nat, string) deps" where
  "flaky_deps = stub_deps\<lparr>client_Do := (\<lambda>req n.
     (if n = 0 then Inl (LibraryError ''context deadline exceeded'') else Inr (req_url req),
      Suc n))\<rparr>"

text \<open>
  A standard query with two questions: the first of type 3, on which every upstream
  fails, the second one that the upstream \<open>one\<close> answers.
\<close>

definition later_question_request :: "string Msg" where
  "later_question_request =
     example_request 0 [example_question\<lparr>Qtype := 3\<rparr>, example_question]"

lemmas Type_defs =
  TypeA_def TypeNS_def TypeCNAME_def TypeSOA_def TypePTR_def
  TypeMX_def TypeTXT_def TypeAAAA_def TypeSPF_def TypeANY_def

lemmas stub_simps =
  stub_deps_def stub_start_def typeToString_def Type_defs httpGet_def emit_def
  DoHQuery_ctx_def example_envelope_def example_answer_def format_d_def decimal.simps
  digit_char_def TrimSpace_def isSpace_def Second_def word_sless_alt

lemmas msg_simps =
  example_request_def example_question_def stub_flags_def new_Msg_def SetReply_def
  SetRcode_def OpcodeQuery_def RcodeSuccess_def RcodeServerFailure_def

section \<open>Properties\<close>

subsection \<open>Type mapper\<close>

lemma typeToString_supported:
  "map typeToString supported_types =
     [Inr ''A'', Inr ''AAAA'', Inr ''CNAME'', Inr ''MX'', Inr ''TXT'',
      Inr ''SPF'', Inr ''NS'', Inr ''SOA'', Inr ''PTR'', Inr ''ANY'']"
  by (simp add: supported_types_def typeToString_def Type_defs)

lemma typeToString_unsupported:
  "c \<notin> set supported_types \<Longrightarrow> typeToString c = Inl (UnsupportedType c)"
  by (simp add: supported_types_def typeToString_def)

lemma typeToString_distinct: "distinct (map typeToString supported_types)"
  unfolding typeToString_supported by simp

text \<open>\<^verbatim>\<open>strings.TrimSpace\<close> leaves every mnemonic as it is.\<close>

lemma typeToString_TrimSpace: "typeToString c = Inr t \<Longrightarrow> TrimSpace t = t"
  by (auto simp add: typeToString_def TrimSpace_def isSpace_def split: if_splits)

text \<open>
  C7, as stated, gives code 99 as an example of a code outside the supported set. Code 99
  is the type code of SPF, which is supported: the mapper answers \<open>SPF\<close> there.
\<close>

theorem C7_code_99_is_SPF:
  "typeToString 99 = Inr ''SPF'' \<and> 99 \<in> set supported_types"
  by (simp add: typeToString_def supported_types_def Type_defs)

text \<open>
  C7 (amended): the type mapper is total and injective on the supported set
  {A, AAAA, CNAME, MX, TXT, SPF, NS, SOA, PTR, ANY}, every supported code maps to its own
  mnemonic, and for every code outside that set (for example code 3) it fails with an
  UnsupportedType error that carries the code.
\<close>

theorem C7_typeToString_table:
  "map typeToString supported_types =
     [Inr ''A'', Inr ''AAAA'', Inr ''CNAME'', Inr ''MX'', Inr ''TXT'',
      Inr ''SPF'', Inr ''NS'', Inr ''SOA'', Inr ''PTR'', Inr ''ANY'']
   \<and> inj_on typeToString (set supported_types)
   \<and> (\<forall>c. c \<notin> set supported_types \<longrightarrow> typeToString c = Inl (UnsupportedType c))"
proof (intro conjI allI impI)
  show "inj_on typeToString (set supported_types)"
    using typeToString_distinct by (simp add: distinct_map)
qed (simp_all add: typeToString_supported typeToString_unsupported)

theorem C7_typeToString_table_witness:
  "typeToString 28 = Inr ''AAAA'' \<and> typeToString 3 = Inl (UnsupportedType 3)
   \<and> typeToString 5 \<noteq> typeToString 15"
proof -
  have t: "map typeToString supported_types ! 1 = Inr ''AAAA''"
    using C7_typeToString_table by simp
  have a: "typeToString 28 = Inr ''AAAA''"
    using t by (simp add: supported_types_def Type_defs)
  have "(3::uint16) \<notin> set supported_types"
    by (simp add: supported_types_def Type_defs)
  then have b: "typeToString 3 = Inl (UnsupportedType 3)"
    using C7_typeToString_table by blast
  have "(5::uint16) \<in> set supported_types" "(15::uint16) \<in> set supported_types"
    by (simp_all add: supported_types_def Type_defs)
  then have c: "typeToString 5 \<noteq> typeToString 15"
    using C7_typeToString_table by (auto dest: inj_onD)
  from a b c show ?thesis by blast
qed

subsection \<open>DoH client\<close>

lemma DoHQuery_answers_all:
  "list_all2 (\<lambda>a rr. \<exists>t. typeToString (Answer_Type a) = Inr t \<and>
       dns_NewRR deps (Answer_Name a @ '' '' @ format_d (Answer_TTL a) @ '' IN '' @ t
                        @ '' '' @ Answer_Data a) = Inr rr)
     as new
   \<Longrightarrow> DoHQuery_answers deps as rrs = Inr (rrs @ new)"
proof (induction as new arbitrary: rrs rule: list_all2_induct)
  case Nil
  then show ?case by simp
next
  case (Cons a rr as new)
  then show ?case by (auto simp: Sprintf_answer_def)
qed

lemma DoHQuery_answers_some_bad:
  "a \<in> set as \<Longrightarrow>
   isl (typeToString (Answer_Type a)) \<or>
   (\<exists>t. typeToString (Answer_Type a) = Inr t \<and>
       isl (dns_NewRR deps (Answer_Name a @ '' '' @ format_d (Answer_TTL a) @ '' IN '' @ t
                             @ '' '' @ Answer_Data a)))
   \<Longrightarrow> isl (DoHQuery_answers deps as rrs)"
proof (induction as arbitrary: rrs)
  case Nil
  then show ?case by simp
next
  case (Cons b as)
  show ?case
  proof (cases "typeToString (Answer_Type b)")
    case (Inl err)
    then show ?thesis by simp
  next
    case (Inr t)
    show ?thesis
    proof (cases "dns_NewRR deps
                    (Sprintf_answer (Answer_Name b) (Answer_TTL b) t (Answer_Data b))")
      case (Inl err)
      with Inr show ?thesis by simp
    next
      case parsed: (Inr rr)
      with Inr Cons.prems have "a \<in> set as"
        by (auto simp: Sprintf_answer_def)
      from Cons.IH [OF this Cons.prems(2)] Inr parsed show ?thesis by simp
    qed
  qed
qed

lemma DoHQuery_decoded:
  assumes "typeToString dnsType = Inr t"
    and "httpGet deps (DoHQuery_ctx tmo) upstream
           [(''name'', name), (''type'', TrimSpace t)] s = (Inr body, s')"
    and "json_Decode deps body = Inr env"
  shows "DoHQuery deps tmo upstream name dnsType s =
     (if Status env \<noteq> 0 then Inl (DOHFailedResponseCode (Status env))
      else DoHQuery_answers deps (Response_Answer env) [], s')"
  using assms by (simp add: DoHQuery_def)

text \<open>
  C2: when the body an upstream sent decodes to an envelope with status 0, the DoH client
  turns the answers, in the order of the list, into the records that \<^verbatim>\<open>dns.NewRR\<close> parses
  from the text \<open>name TTL IN mnemonic data\<close>; and when one answer has a type the type
  mapper does not know, or a text that does not parse, the whole call fails: it returns
  an error and no record.
\<close>

theorem C2_answers_in_order:
  assumes "typeToString dnsType = Inr t"
    and "httpGet deps (DoHQuery_ctx tmo) upstream
           [(''name'', name), (''type'', TrimSpace t)] s = (Inr body, s')"
    and "json_Decode deps body = Inr env"
    and "Status env = 0"
  shows "(list_all2 (\<lambda>a rr. \<exists>t. typeToString (Answer_Type a) = Inr t \<and>
              dns_NewRR deps (Answer_Name a @ '' '' @ format_d (Answer_TTL a) @ '' IN '' @ t
                               @ '' '' @ Answer_Data a) = Inr rr)
            (Response_Answer env) rrs
          \<longrightarrow> DoHQuery deps tmo upstream name dnsType s = (Inr rrs, s'))
       \<and> ((\<exists>a \<in> set (Response_Answer env).
              isl (typeToString (Answer_Type a)) \<or>
              (\<exists>t. typeToString (Answer_Type a) = Inr t \<and>
                 isl (dns_NewRR deps (Answer_Name a @ '' '' @ format_d (Answer_TTL a) @ '' IN ''
                                       @ t @ '' '' @ Answer_Data a))))
          \<longrightarrow> (\<exists>err. DoHQuery deps tmo upstream name dnsType s = (Inl err, s')))"
proof (intro conjI impI)
  assume "list_all2 (\<lambda>a rr. \<exists>t. typeToString (Answer_Type a) = Inr t \<and>
              dns_NewRR deps (Answer_Name a @ '' '' @ format_d (Answer_TTL a) @ '' IN '' @ t
                               @ '' '' @ Answer_Data a) = Inr rr)
            (Response_Answer env) rrs"
  from DoHQuery_answers_all [OF this, of "[]"] assms
  show "DoHQuery deps tmo upstream name dnsType s = (Inr rrs, s')"
    by (simp add: DoHQuery_decoded)
next
  assume "\<exists>a \<in> set (Response_Answer env).
              isl (typeToString (Answer_Type a)) \<or>
              (\<exists>t. typeToString (Answer_Type a) = Inr t \<and>
                 isl (dns_NewRR deps (Answer_Name a @ '' '' @ format_d (Answer_TTL a) @ '' IN ''
                                       @ t @ '' '' @ Answer_Data a)))"
  then obtain a where "a \<in> set (Response_Answer env)" and
    "isl (typeToString (Answer_Type a)) \<or>
     (\<exists>t. typeToString (Answer_Type a) = Inr t \<and>
        isl (dns_NewRR deps (Answer_Name a @ '' '' @ format_d (Answer_TTL a) @ '' IN ''
                              @ t @ '' '' @ Answer_Data a)))"
    by blast
  from DoHQuery_answers_some_bad [OF this, of "[]"]
  obtain err where "DoHQuery_answers deps (Response_Answer env) [] = Inl err"
    by (auto simp: isl_def)
  with assms show "\<exists>err. DoHQuery deps tmo upstream name dnsType s = (Inl err, s')"
    by (simp add: DoHQuery_decoded)
qed

text \<open>
  C2 at the example of the specification: the answer \<open>example.com.\<close>, type 1, TTL 300,
  data 93.184.216.34 gives the one record of the line
  \<open>example.com. 300 IN A 93.184.216.34\<close>; an envelope with an answer of type 3 fails.
\<close>

theorem C2_answers_in_order_witness:
  "DoHQuery stub_deps 10 ''one'' ''example.com.'' 1 stub_start =
     (Inr [''example.com. 300 IN A 93.184.216.34''],
      \<lparr>world = 1, trace = [ClientDo \<lparr>req_ctx = WithTimeout 10000000000, req_method = ''GET'',
          req_url = ''one'', req_header = [(''Accept'', ''application/dns-json'')],
          req_query = [(''name'', ''example.com.''), (''type'', ''A'')]\<rparr>]\<rparr>)
   \<and> isl (fst (DoHQuery stub_deps 10 ''badtype'' ''example.com.'' 1 stub_start))"
proof -
  have a: "DoHQuery stub_deps 10 ''one'' ''example.com.'' 1 stub_start =
     (Inr [''example.com. 300 IN A 93.184.216.34''],
      \<lparr>world = 1, trace = [ClientDo \<lparr>req_ctx = WithTimeout 10000000000, req_method = ''GET'',
          req_url = ''one'', req_header = [(''Accept'', ''application/dns-json'')],
          req_query = [(''name'', ''example.com.''), (''type'', ''A'')]\<rparr>]\<rparr>)"
    using C2_answers_in_order [of 1 "''A''" stub_deps 10 "''one''" "''example.com.''"
       stub_start "''one''" _ "example_envelope 0 [example_answer]"
       "[''example.com. 300 IN A 93.184.216.34'']"]
    by (simp add: stub_simps)
  have b: "isl (fst (DoHQuery stub_deps 10 ''badtype'' ''example.com.'' 1 stub_start))"
    using C2_answers_in_order [of 1 "''A''" stub_deps 10 "''badtype''" "''example.com.''"
       stub_start "''badtype''" _
       "example_envelope 0 [example_answer, example_answer\<lparr>Answer_Type := 3\<rparr>]" "[]"]
    by (auto simp add: stub_simps)
  from a b show ?thesis by blast
qed

text \<open>
  C5: when the body an upstream sent decodes to an envelope whose status is not 0, the
  DoH client fails with the error that carries this status, and returns no record,
  whatever the answer list of the envelope holds.
\<close>

theorem C5_status_rejected:
  assumes "typeToString dnsType = Inr t"
    and "httpGet deps (DoHQuery_ctx tmo) upstream
           [(''name'', name), (''type'', TrimSpace t)] s = (Inr body, s')"
    and "json_Decode deps body = Inr env"
    and "Status env \<noteq> 0"
  shows "DoHQuery deps tmo upstream name dnsType s =
           (Inl (DOHFailedResponseCode (Status env)), s')"
  using assms by (simp add: DoHQuery_decoded)

text \<open>C5 at an envelope with status 2 and one answer.\<close>

theorem C5_status_rejected_witness:
  "fst (DoHQuery stub_deps 10 ''status2'' ''example.com.'' 1 stub_start)
     = Inl (DOHFailedResponseCode 2)"
  using C5_status_rejected [of 1 "''A''" stub_deps 10 "''status2''" "''example.com.''"
     stub_start "''status2''" _ "example_envelope 2 [example_answer]"]
  by (simp add: stub_simps)

subsection \<open>The deadline of a request\<close>

lemma DoHQuery_ctx_disabled: "sint tmo \<le> 0 \<Longrightarrow> DoHQuery_ctx tmo = Background"
  by (simp add: DoHQuery_ctx_def word_sless_alt)

lemma DoHQuery_ctx_seconds:
  assumes "0 < sint tmo" and "sint tmo * 1000000000 < 2 ^ 63"
  shows "DoHQuery_ctx tmo = WithTimeout (tmo * Second)
         \<and> sint (tmo * Second) = sint tmo * 1000000000"
proof -
  have "sint (tmo * 1000000000) = signed_take_bit 63 (sint tmo * sint (1000000000 :: int64))"
    by (simp add: sint_word_ariths)
  also have "\<dots> = sint tmo * 1000000000"
    using assms by (simp add: signed_take_bit_int_eq_self)
  finally show ?thesis
    using assms by (simp add: DoHQuery_ctx_def word_sless_alt Second_def)
qed

text \<open>
  C6: a timeout that is zero or negative gives a request without deadline, and a positive
  one a deadline of that many seconds. The flag is a \<^verbatim>\<open>time.Duration\<close>, and the program
  multiplies it by \<^verbatim>\<open>time.Second\<close> in 64 bits. With \<^verbatim>\<open>-timeout 10s\<close> the flag holds
  10000000000; the product wraps, and the request gets a deadline of
  -8446744073709551616 nanoseconds, which has passed before the request is sent.
\<close>

theorem C6_timeout_10s_wraps:
  "DoHQuery_ctx 10000000000 = WithTimeout 10000000000000000000
   \<and> sint (10000000000000000000 :: int64) = - 8446744073709551616
   \<and> map req_ctx (requests (trace (snd
        (DoHQuery stub_deps 10000000000 ''one'' ''example.com.'' 1 stub_start))))
       = [WithTimeout 10000000000000000000]"
  by (simp add: DoHQuery_def Sprintf_answer_def stub_simps)

subsection \<open>Requests that are not resolved\<close>

lemma requests_append: "requests (xs @ ys) = requests xs @ requests ys"
  by (induction xs rule: requests.induct) simp_all

lemma written_append: "written (xs @ ys) = written xs @ written ys"
  by (induction xs rule: written.induct) simp_all

lemma handleDnsRequest_no_question:
  "Msg_Question req = [] \<Longrightarrow>
   handleDnsRequest deps fl req s = emit (Written (SetRcode new_Msg req RcodeServerFailure)) s"
  by (simp add: handleDnsRequest_def HandleFailed_def WriteMsg_def)

text \<open>
  C8: for a request without question the handler writes the failure response (response
  code SERVFAIL) and does nothing else: the trace gains this one message, so no upstream
  is called.
\<close>

theorem C8_no_question:
  assumes "Msg_Question req = []"
  shows "handleDnsRequest deps fl req s =
           s\<lparr>trace := trace s @ [Written (SetRcode new_Msg req RcodeServerFailure)]\<rparr>
         \<and> Msg_Rcode (SetRcode new_Msg req RcodeServerFailure :: 'rr Msg) = RcodeServerFailure
         \<and> requests (trace (handleDnsRequest deps fl req s)) = requests (trace s)"
  using assms
  by (simp add: handleDnsRequest_no_question emit_def SetRcode_def requests_append)

text \<open>C8 at a standard query without question.\<close>

theorem C8_no_question_witness:
  "map Msg_Rcode (written (trace (handleDnsRequest stub_deps (stub_flags [''one''])
      (example_request 0 []) stub_start))) = [2]
   \<and> requests (trace (handleDnsRequest stub_deps (stub_flags [''one''])
      (example_request 0 []) stub_start)) = []"
  using C8_no_question [of "example_request 0 []" stub_deps "stub_flags [''one'']" stub_start]
  by (simp add: msg_simps stub_start_def)

text \<open>
  C3, as stated, fails: a request with opcode 4 (NOTIFY) and one question is answered
  with one message whose response code is success, not SERVFAIL.
\<close>

theorem C3_notify_gets_success:
  "map Msg_Rcode (written (trace (handleDnsRequest stub_deps (stub_flags [''one''])
      (example_request 4 [example_question]) stub_start))) = [RcodeSuccess]
   \<and> RcodeSuccess \<noteq> RcodeServerFailure"
  by (simp add: handleDnsRequest_def WriteMsg_def emit_def msg_simps stub_start_def)

text \<open>
  C3 (amended): for a request whose opcode is not QUERY the handler calls no upstream and
  writes one message: the failure response (SERVFAIL) when the request has no question,
  and otherwise the reply built from the request, with response code success and no
  answer record.
\<close>

theorem C3_other_opcode:
  assumes "Msg_Opcode req \<noteq> OpcodeQuery"
  shows "(Msg_Question req = [] \<longrightarrow>
            handleDnsRequest deps fl req s =
              emit (Written (SetRcode new_Msg req RcodeServerFailure)) s)
       \<and> (Msg_Question req \<noteq> [] \<longrightarrow>
            handleDnsRequest deps fl req s =
              emit (Written ((SetReply new_Msg req)\<lparr>Msg_Compress := False\<rparr>)) s
            \<and> Msg_Rcode ((SetReply new_Msg req)\<lparr>Msg_Compress := False\<rparr>) = RcodeSuccess
            \<and> Msg_Answer ((SetReply new_Msg req)\<lparr>Msg_Compress := False\<rparr>) = [])
       \<and> requests (trace (handleDnsRequest deps fl req s)) = requests (trace s)"
  using assms
  by (auto simp add: handleDnsRequest_def HandleFailed_def WriteMsg_def emit_def
        requests_append SetReply_def new_Msg_def)

text \<open>C3 (amended) at two requests with opcode 4, without and with a question.\<close>

theorem C3_other_opcode_witness:
  "trace (handleDnsRequest stub_deps (stub_flags [''one'']) (example_request 4 []) stub_start)
     = [Written (SetRcode new_Msg (example_request 4 []) 2)]
   \<and> trace (handleDnsRequest stub_deps (stub_flags [''one''])
        (example_request 4 [example_question]) stub_start)
     = [Written ((SetReply new_Msg (example_request 4 [example_question]))
          \<lparr>Msg_Compress := False\<rparr>)]"
  using C3_other_opcode [of "example_request 4 []" stub_deps "stub_flags [''one'']" stub_start]
        C3_other_opcode [of "example_request 4 [example_question]" stub_deps
          "stub_flags [''one'']" stub_start]
  by (simp add: example_request_def OpcodeQuery_def RcodeServerFailure_def emit_def
        stub_start_def)

subsection \<open>The fallback loop\<close>

text \<open>The upstreams are in the order in which the command line gives them.\<close>

lemma flagStringList_Set_order: "foldl flagStringList_Set i vs = i @ vs"
  by (induction vs arbitrary: i) (simp_all add: flagStringList_Set_def)

text \<open>
  The two nested loops of \<^verbatim>\<open>parseQuery\<close> make the attempts of the list of all pairs of a
  question and an upstream, the questions in the order of the message and, for each
  question, the upstreams in the order of the flags, up to the first success.
\<close>

lemma answers_foldl:
  "foldl (\<lambda>m rr. m\<lparr>Msg_Answer := Msg_Answer m @ [rr]\<rparr>) m rsp
     = m\<lparr>Msg_Answer := Msg_Answer m @ rsp\<rparr>"
  by (induction rsp arbitrary: m) simp_all

lemma parseQuery_upstreams_first_success:
  "parseQuery_upstreams deps tmo m q ups s =
     (case first_success deps tmo (map (Pair q) ups) s of
        (None, s') \<Rightarrow> (None, s')
      | (Some rsp, s') \<Rightarrow> (Some (m\<lparr>Msg_Answer := Msg_Answer m @ rsp\<rparr>), s'))"
  by (induction ups arbitrary: s) (simp_all add: answers_foldl split: prod.splits sum.splits)

lemma first_success_append:
  "first_success deps tmo (xs @ ys) s =
     (case first_success deps tmo xs s of
        (None, s') \<Rightarrow> first_success deps tmo ys s'
      | (Some rsp, s') \<Rightarrow> (Some rsp, s'))"
  by (induction xs arbitrary: s) (auto split: prod.splits sum.splits)

lemma parseQuery_questions_first_success:
  "parseQuery_questions deps fl m qs s =
     (case first_success deps (timeout fl) (List.product qs (upstreams fl)) s of
        (None, s') \<Rightarrow> (None, s')
      | (Some rsp, s') \<Rightarrow> (Some (m\<lparr>Msg_Answer := Msg_Answer m @ rsp\<rparr>), s'))"
  by (induction qs arbitrary: s)
     (auto simp add: parseQuery_upstreams_first_success first_success_append
        split: prod.splits option.splits)

lemma first_success_found:
  assumes "first_success deps tmo pre s = (None, s1)"
    and "DoHQuery deps tmo u (Name q) (Qtype q) s1 = (Inr rsp, s2)"
  shows "first_success deps tmo (pre @ (q, u) # post) s = (Some rsp, s2)"
  using assms by (simp add: first_success_append)

lemma Msg_Question_SetReply:
  "Msg_Question req \<noteq> [] \<Longrightarrow> Msg_Question (SetReply new_Msg req) = [hd (Msg_Question req)]"
  by (cases "Msg_Question req") (simp_all add: SetReply_def)

lemma handleDnsRequest_query:
  assumes "Msg_Opcode req = OpcodeQuery" and "Msg_Question req \<noteq> []"
  shows "handleDnsRequest deps fl req s =
     (case first_success deps (timeout fl)
             (List.product (Msg_Question (SetReply new_Msg req)) (upstreams fl)) s of
        (None, s') \<Rightarrow>
          emit (Written ((SetReply new_Msg req)\<lparr>Msg_Compress := False\<rparr>))
            (emit (Written (SetRcode new_Msg req RcodeServerFailure)) s')
      | (Some rsp, s') \<Rightarrow>
          emit (Written ((SetReply new_Msg req)\<lparr>Msg_Compress := False, Msg_Answer := rsp\<rparr>)) s')"
proof -
  have "Msg_Answer (SetReply new_Msg req) = []"
    by (simp add: SetReply_def new_Msg_def)
  then show ?thesis
    using assms
    by (simp add: handleDnsRequest_def parseQuery_def parseQuery_questions_first_success
          HandleFailed_def WriteMsg_def split: prod.splits option.splits)
qed

lemma httpGet_written: "written (trace (snd (httpGet deps c u ps s))) = written (trace s)"
  by (simp add: httpGet_def emit_def written_append Let_def split: option.splits prod.splits)

lemma DoHQuery_written: "written (trace (snd (DoHQuery deps tmo u n t s))) = written (trace s)"
proof (cases "typeToString t")
  case (Inl err)
  then show ?thesis by (simp add: DoHQuery_def)
next
  case (Inr mn)
  let ?params = "[(''name'', n), (''type'', TrimSpace mn)]"
  obtain r s' where h: "httpGet deps (DoHQuery_ctx tmo) u ?params s = (r, s')"
    by (cases "httpGet deps (DoHQuery_ctx tmo) u ?params s")
  with httpGet_written [of deps "DoHQuery_ctx tmo" u ?params s]
  have "written (trace s') = written (trace s)" by simp
  with Inr h show ?thesis
    by (simp add: DoHQuery_def split: sum.splits)
qed

lemma first_success_written:
  "written (trace (snd (first_success deps tmo as s))) = written (trace s)"
proof (induction as arbitrary: s)
  case Nil
  then show ?case by simp
next
  case (Cons a as)
  obtain q u where a: "a = (q, u)" by (cases a)
  obtain r s' where d: "DoHQuery deps tmo u (Name q) (Qtype q) s = (r, s')"
    by (cases "DoHQuery deps tmo u (Name q) (Qtype q) s")
  with DoHQuery_written [of deps tmo u "Name q" "Qtype q" s]
  have w: "written (trace s') = written (trace s)" by simp
  show ?case
  proof (cases r)
    case (Inl err)
    with a d w Cons.IH [of "emit (Logged u err) s'"] show ?thesis
      by (simp add: emit_def written_append)
  next
    case (Inr rsp)
    with a d w show ?thesis by simp
  qed
qed

lemma first_success_all_fail:
  assumes "\<forall>(q, u) \<in> set as. \<forall>s'. isl (fst (DoHQuery deps tmo u (Name q) (Qtype q) s'))"
  shows "fst (first_success deps tmo as s) = None"
  using assms
proof (induction as arbitrary: s)
  case Nil
  then show ?case by simp
next
  case (Cons a as)
  obtain q u where a: "a = (q, u)" by (cases a)
  obtain r s' where d: "DoHQuery deps tmo u (Name q) (Qtype q) s = (r, s')"
    by (cases "DoHQuery deps tmo u (Name q) (Qtype q) s")
  from Cons.prems a have "isl (fst (DoHQuery deps tmo u (Name q) (Qtype q) s))" by simp
  with d obtain err where r: "r = Inl err" by (cases r) simp_all
  from Cons.prems
  have "\<forall>(q, u) \<in> set as. \<forall>s'. isl (fst (DoHQuery deps tmo u (Name q) (Qtype q) s'))"
    by simp
  from Cons.IH [OF this] a d r show ?case by simp
qed

lemma parseQuery_first_success:
  "parseQuery deps fl m req s =
     (case first_success deps (timeout fl) (List.product (Msg_Question m) (upstreams fl)) s of
        (None, s') \<Rightarrow> (m, HandleFailed req s')
      | (Some rsp, s') \<Rightarrow> (m\<lparr>Msg_Answer := Msg_Answer m @ rsp\<rparr>, s'))"
  by (simp add: parseQuery_def parseQuery_questions_first_success
        split: prod.splits option.splits)

text \<open>
  The handler gives \<^verbatim>\<open>parseQuery\<close> the reply that \<^verbatim>\<open>SetReply\<close> made, which carries the
  first question of the request only: the later questions of a request change nothing.
\<close>

lemma HandleFailed_first_question:
  "Msg_Question req = q0 # qs \<Longrightarrow>
   HandleFailed (req\<lparr>Msg_Question := [q0]\<rparr>) s = HandleFailed req s"
  by (simp add: HandleFailed_def SetRcode_def SetReply_def)

lemma parseQuery_first_question:
  assumes "Msg_Question req = q0 # qs"
  shows "parseQuery deps fl m (req\<lparr>Msg_Question := [q0]\<rparr>) s = parseQuery deps fl m req s"
proof -
  obtain r s' where run: "parseQuery_questions deps fl m (Msg_Question m) s = (r, s')"
    by (cases "parseQuery_questions deps fl m (Msg_Question m) s")
  with HandleFailed_first_question [OF assms, of s'] show ?thesis
    by (simp add: parseQuery_def split: option.splits)
qed

lemma handleDnsRequest_first_question:
  assumes "Msg_Question req = q0 # qs"
  shows "handleDnsRequest deps fl req s
           = handleDnsRequest deps fl (req\<lparr>Msg_Question := [q0]\<rparr>) s"
proof -
  have "SetReply new_Msg (req\<lparr>Msg_Question := [q0]\<rparr>) = SetReply new_Msg req"
    using assms by (simp add: SetReply_def)
  with assms show ?thesis
    by (simp add: handleDnsRequest_def Let_def HandleFailed_first_question [OF assms]
          parseQuery_first_question [OF assms])
qed

text \<open>
  C1, as stated, fails: the handler does not go through the questions of the request.
  On a standard query with two questions, where the upstream fails on the first and
  would answer the second, the handler logs the one failure, writes the failure response
  and the empty reply, and never attempts the second question.
\<close>

theorem C1_later_question_never_tried:
  "trace (handleDnsRequest stub_deps (stub_flags [''one'']) later_question_request stub_start)
     = [Logged ''one'' (UnsupportedType 3),
        Written (SetRcode new_Msg later_question_request RcodeServerFailure),
        Written ((SetReply new_Msg later_question_request)\<lparr>Msg_Compress := False\<rparr>)]
   \<and> Msg_Question later_question_request ! 1 = example_question
   \<and> fst (DoHQuery stub_deps (timeout (stub_flags [''one''])) ''one''
             (Name example_question) (Qtype example_question)
             (emit (Logged ''one'' (UnsupportedType 3)) stub_start))
       = Inr [''example.com. 300 IN A 93.184.216.34'']"
  by (simp add: later_question_request_def handleDnsRequest_def parseQuery_def HandleFailed_def
        WriteMsg_def DoHQuery_def Sprintf_answer_def msg_simps stub_simps)

text \<open>
  C1 (amended). The handler attempts only the first question of a request: it behaves on
  a request as on the same request cut to its first question. \<^verbatim>\<open>parseQuery\<close> goes through
  the questions of the message it is given in order and, for each, through the upstreams
  in the order of the flags: when every attempt before the pair \<open>(q, u)\<close> in this order
  fails (each failure is logged and the next attempt is made) and the call of upstream
  \<open>u\<close> for question \<open>q\<close> returns records without error, exactly these records are
  appended to the answers and the state is the one this call left, so no later upstream
  and no later question is attempted. For a standard query with first question \<open>q0\<close>,
  when the upstreams before \<open>u\<close> fail on \<open>q0\<close> and \<open>u\<close> answers, the handler writes the
  reply with exactly the records of \<open>u\<close>, on the state this call left.
\<close>

theorem C1_first_question_only:
  "(Msg_Question req = q0 # qs \<longrightarrow>
      handleDnsRequest deps fl req s = handleDnsRequest deps fl (req\<lparr>Msg_Question := [q0]\<rparr>) s)
   \<and> (List.product (Msg_Question m) (upstreams fl) = pre @ (q, u) # post
        \<and> first_success deps (timeout fl) pre s = (None, s1)
        \<and> DoHQuery deps (timeout fl) u (Name q) (Qtype q) s1 = (Inr rsp, s2)
      \<longrightarrow> parseQuery deps fl m req s = (m\<lparr>Msg_Answer := Msg_Answer m @ rsp\<rparr>, s2))
   \<and> (Msg_Opcode req = OpcodeQuery \<and> Msg_Question req = q0 # qs
        \<and> upstreams fl = ups1 @ u # ups2
        \<and> first_success deps (timeout fl) (map (Pair q0) ups1) s = (None, s1)
        \<and> DoHQuery deps (timeout fl) u (Name q0) (Qtype q0) s1 = (Inr rsp, s2)
      \<longrightarrow> handleDnsRequest deps fl req s =
            emit (Written ((SetReply new_Msg req)\<lparr>Msg_Compress := False, Msg_Answer := rsp\<rparr>)) s2)"
proof (intro conjI impI)
  assume "Msg_Question req = q0 # qs"
  then show "handleDnsRequest deps fl req s
               = handleDnsRequest deps fl (req\<lparr>Msg_Question := [q0]\<rparr>) s"
    by (rule handleDnsRequest_first_question)
next
  assume h: "List.product (Msg_Question m) (upstreams fl) = pre @ (q, u) # post
        \<and> first_success deps (timeout fl) pre s = (None, s1)
        \<and> DoHQuery deps (timeout fl) u (Name q) (Qtype q) s1 = (Inr rsp, s2)"
  then have "first_success deps (timeout fl) (List.product (Msg_Question m) (upstreams fl)) s
               = (Some rsp, s2)"
    using first_success_found [of deps "timeout fl" pre s s1 u q rsp s2 post] by simp
  then show "parseQuery deps fl m req s = (m\<lparr>Msg_Answer := Msg_Answer m @ rsp\<rparr>, s2)"
    by (simp add: parseQuery_first_success)
next
  assume h: "Msg_Opcode req = OpcodeQuery \<and> Msg_Question req = q0 # qs
        \<and> upstreams fl = ups1 @ u # ups2
        \<and> first_success deps (timeout fl) (map (Pair q0) ups1) s = (None, s1)
        \<and> DoHQuery deps (timeout fl) u (Name q0) (Qtype q0) s1 = (Inr rsp, s2)"
  then have q: "Msg_Question (SetReply new_Msg req) = [q0]"
    by (simp add: SetReply_def)
  from h have "List.product [q0] (upstreams fl) = map (Pair q0) ups1 @ (q0, u) # map (Pair q0) ups2"
    by simp
  with h first_success_found [of deps "timeout fl" "map (Pair q0) ups1" s s1 u q0 rsp s2
         "map (Pair q0) ups2"]
  have "first_success deps (timeout fl) (List.product [q0] (upstreams fl)) s = (Some rsp, s2)"
    by simp
  with h q show "handleDnsRequest deps fl req s =
            emit (Written ((SetReply new_Msg req)\<lparr>Msg_Compress := False, Msg_Answer := rsp\<rparr>)) s2"
    by (simp add: handleDnsRequest_query)
qed

text \<open>
  C1 (amended) at three runs. The handler on the request with two questions does what it
  does on the request with the first of them alone. The handler with the upstreams
  \<open>down\<close>, \<open>one\<close>, \<open>empty\<close>: \<open>down\<close> is tried and logged, \<open>one\<close> answers, \<open>empty\<close> is
  never called. \<^verbatim>\<open>parseQuery\<close> on a message with two questions: both upstreams fail on
  the first question, then \<open>down\<close> fails and \<open>one\<close> answers on the second.
\<close>

theorem C1_first_question_only_witness:
  "handleDnsRequest stub_deps (stub_flags [''one'']) later_question_request stub_start
     = handleDnsRequest stub_deps (stub_flags [''one''])
         (example_request 0 [example_question\<lparr>Qtype := 3\<rparr>]) stub_start
   \<and> trace (handleDnsRequest stub_deps (stub_flags [''down'', ''one'', ''empty''])
            (example_request 0 [example_question]) stub_start) =
     [ClientDo \<lparr>req_ctx = WithTimeout 10000000000, req_method = ''GET'', req_url = ''down'',
         req_header = [(''Accept'', ''application/dns-json'')],
         req_query = [(''name'', ''example.com.''), (''type'', ''A'')]\<rparr>,
      Logged ''down'' (LibraryError ''connection refused''),
      ClientDo \<lparr>req_ctx = WithTimeout 10000000000, req_method = ''GET'', req_url = ''one'',
         req_header = [(''Accept'', ''application/dns-json'')],
         req_query = [(''name'', ''example.com.''), (''type'', ''A'')]\<rparr>,
      Written ((SetReply new_Msg (example_request 0 [example_question]))
         \<lparr>Msg_Compress := False, Msg_Answer := [''example.com. 300 IN A 93.184.216.34'']\<rparr>)]
   \<and> Msg_Answer (fst (parseQuery stub_deps (stub_flags [''down'', ''one''])
         two_questions (example_request 0 [example_question]) stub_start))
       = [''example.com. 300 IN A 93.184.216.34'']
   \<and> trace (snd (parseQuery stub_deps (stub_flags [''down'', ''one''])
         two_questions (example_request 0 [example_question]) stub_start))
       = [Logged ''down'' (UnsupportedType 3), Logged ''one'' (UnsupportedType 3),
          ClientDo \<lparr>req_ctx = WithTimeout 10000000000, req_method = ''GET'', req_url = ''down'',
            req_header = [(''Accept'', ''application/dns-json'')],
            req_query = [(''name'', ''example.com.''), (''type'', ''A'')]\<rparr>,
          Logged ''down'' (LibraryError ''connection refused''),
          ClientDo \<lparr>req_ctx = WithTimeout 10000000000, req_method = ''GET'', req_url = ''one'',
            req_header = [(''Accept'', ''application/dns-json'')],
            req_query = [(''name'', ''example.com.''), (''type'', ''A'')]\<rparr>]"
proof -
  let ?req = "example_request 0 [example_question]"
  let ?fl = "stub_flags [''down'', ''one'', ''empty'']"
  let ?q3 = "example_question\<lparr>Qtype := 3\<rparr>"
  have 0: "Msg_Question later_question_request = ?q3 # [example_question]"
    by (simp add: later_question_request_def example_request_def)
  from C1_first_question_only [where req = later_question_request and ?q0.0 = ?q3
         and qs = "[example_question]" and deps = stub_deps and fl = "stub_flags [''one'']"
         and s = stub_start] 0
  have "handleDnsRequest stub_deps (stub_flags [''one'']) later_question_request stub_start
     = handleDnsRequest stub_deps (stub_flags [''one''])
         (later_question_request\<lparr>Msg_Question := [?q3]\<rparr>) stub_start"
    by blast
  moreover have "later_question_request\<lparr>Msg_Question := [?q3]\<rparr> = example_request 0 [?q3]"
    by (simp add: later_question_request_def example_request_def)
  ultimately have z: "handleDnsRequest stub_deps (stub_flags [''one'']) later_question_request
       stub_start
     = handleDnsRequest stub_deps (stub_flags [''one'']) (example_request 0 [?q3]) stub_start"
    by simp
  let ?s1 = "snd (first_success stub_deps (timeout ?fl) (map (Pair example_question) [''down''])
                    stub_start)"
  let ?s2 = "snd (DoHQuery stub_deps (timeout ?fl) ''one'' (Name example_question)
                    (Qtype example_question) ?s1)"
  have 1: "Msg_Opcode ?req = OpcodeQuery \<and> Msg_Question ?req = example_question # []
        \<and> upstreams ?fl = [''down''] @ ''one'' # [''empty'']
        \<and> first_success stub_deps (timeout ?fl) (map (Pair example_question) [''down''])
              stub_start = (None, ?s1)
        \<and> DoHQuery stub_deps (timeout ?fl) ''one'' (Name example_question)
              (Qtype example_question) ?s1
            = (Inr [''example.com. 300 IN A 93.184.216.34''], ?s2)"
    by (simp add: DoHQuery_def Sprintf_answer_def msg_simps stub_simps)
  from C1_first_question_only [where req = ?req and ?q0.0 = example_question and qs = "[]"
         and deps = stub_deps and fl = ?fl and s = stub_start and ?s1.0 = ?s1 and ?s2.0 = ?s2
         and rsp = "[''example.com. 300 IN A 93.184.216.34'']" and ?ups1.0 = "[''down'']"
         and u = "''one''" and ?ups2.0 = "[''empty'']"] 1
  have "handleDnsRequest stub_deps ?fl ?req stub_start =
          emit (Written ((SetReply new_Msg ?req)\<lparr>Msg_Compress := False,
            Msg_Answer := [''example.com. 300 IN A 93.184.216.34'']\<rparr>)) ?s2"
    by blast
  then have a: "trace (handleDnsRequest stub_deps ?fl ?req stub_start) =
     [ClientDo \<lparr>req_ctx = WithTimeout 10000000000, req_method = ''GET'', req_url = ''down'',
         req_header = [(''Accept'', ''application/dns-json'')],
         req_query = [(''name'', ''example.com.''), (''type'', ''A'')]\<rparr>,
      Logged ''down'' (LibraryError ''connection refused''),
      ClientDo \<lparr>req_ctx = WithTimeout 10000000000, req_method = ''GET'', req_url = ''one'',
         req_header = [(''Accept'', ''application/dns-json'')],
         req_query = [(''name'', ''example.com.''), (''type'', ''A'')]\<rparr>,
      Written ((SetReply new_Msg ?req)
         \<lparr>Msg_Compress := False, Msg_Answer := [''example.com. 300 IN A 93.184.216.34'']\<rparr>)]"
    by (simp add: DoHQuery_def Sprintf_answer_def msg_simps stub_simps)
  let ?fl2 = "stub_flags [''down'', ''one'']"
  let ?pre2 = "[(?q3, ''down''), (?q3, ''one''), (example_question, ''down'')]"
  let ?t1 = "snd (first_success stub_deps (timeout ?fl2) ?pre2 stub_start)"
  let ?t2 = "snd (DoHQuery stub_deps (timeout ?fl2) ''one'' (Name example_question)
                    (Qtype example_question) ?t1)"
  have 5: "List.product (Msg_Question two_questions) (upstreams ?fl2)
             = ?pre2 @ (example_question, ''one'') # []
        \<and> first_success stub_deps (timeout ?fl2) ?pre2 stub_start = (None, ?t1)
        \<and> DoHQuery stub_deps (timeout ?fl2) ''one'' (Name example_question)
             (Qtype example_question) ?t1
             = (Inr [''example.com. 300 IN A 93.184.216.34''], ?t2)"
    by (simp add: two_questions_def DoHQuery_def Sprintf_answer_def msg_simps stub_simps)
  from C1_first_question_only [where req = ?req and deps = stub_deps and fl = ?fl2
         and s = stub_start and m = two_questions and pre = ?pre2 and q = example_question
         and u = "''one''" and post = "[]" and ?s1.0 = ?t1 and ?s2.0 = ?t2
         and rsp = "[''example.com. 300 IN A 93.184.216.34'']"] 5
  have "parseQuery stub_deps ?fl2 two_questions ?req stub_start =
          (two_questions\<lparr>Msg_Answer := Msg_Answer two_questions
              @ [''example.com. 300 IN A 93.184.216.34'']\<rparr>, ?t2)"
    by blast
  then have b: "Msg_Answer (fst (parseQuery stub_deps ?fl2 two_questions ?req stub_start))
       = [''example.com. 300 IN A 93.184.216.34'']"
    and c: "trace (snd (parseQuery stub_deps ?fl2 two_questions ?req stub_start))
       = [Logged ''down'' (UnsupportedType 3), Logged ''one'' (UnsupportedType 3),
          ClientDo \<lparr>req_ctx = WithTimeout 10000000000, req_method = ''GET'', req_url = ''down'',
            req_header = [(''Accept'', ''application/dns-json'')],
            req_query = [(''name'', ''example.com.''), (''type'', ''A'')]\<rparr>,
          Logged ''down'' (LibraryError ''connection refused''),
          ClientDo \<lparr>req_ctx = WithTimeout 10000000000, req_method = ''GET'', req_url = ''one'',
            req_header = [(''Accept'', ''application/dns-json'')],
            req_query = [(''name'', ''example.com.''), (''type'', ''A'')]\<rparr>]"
    by (simp_all add: two_questions_def DoHQuery_def Sprintf_answer_def msg_simps stub_simps)
  from z a b c show ?thesis by blast
qed

text \<open>
  C10: when every attempt before upstream \<open>u\<close> fails and the body \<open>u\<close> sends decodes to
  an envelope with status 0 and an empty answer list, the DoH client returns the empty
  list of records without error; the loop takes this as the success, so no later
  upstream is tried, and the handler writes the reply with response code success and no
  answer record.
\<close>

theorem C10_empty_answer_is_success:
  assumes "Msg_Opcode req = OpcodeQuery" and "Msg_Question req \<noteq> []"
    and "List.product (Msg_Question (SetReply new_Msg req)) (upstreams fl) = pre @ (q, u) # post"
    and "first_success deps (timeout fl) pre s = (None, s1)"
    and "typeToString (Qtype q) = Inr t"
    and "httpGet deps (DoHQuery_ctx (timeout fl)) u
           [(''name'', Name q), (''type'', TrimSpace t)] s1 = (Inr body, s2)"
    and "json_Decode deps body = Inr env"
    and "Status env = 0" and "Response_Answer env = []"
  shows "DoHQuery deps (timeout fl) u (Name q) (Qtype q) s1 = (Inr [], s2)
         \<and> handleDnsRequest deps fl req s =
             emit (Written ((SetReply new_Msg req)\<lparr>Msg_Compress := False\<rparr>)) s2
         \<and> Msg_Rcode ((SetReply new_Msg req)\<lparr>Msg_Compress := False\<rparr>) = RcodeSuccess
         \<and> Msg_Answer ((SetReply new_Msg req)\<lparr>Msg_Compress := False\<rparr>) = []"
proof -
  have d: "DoHQuery deps (timeout fl) u (Name q) (Qtype q) s1 = (Inr [], s2)"
    using assms(5-9) by (simp add: DoHQuery_decoded)
  have e: "Msg_Answer (SetReply new_Msg req) = []"
    by (simp add: SetReply_def new_Msg_def)
  have "(SetReply new_Msg req)\<lparr>Msg_Compress := False, Msg_Answer := []\<rparr>
          = (SetReply new_Msg req)\<lparr>Msg_Compress := False\<rparr>"
    by (simp add: SetReply_def new_Msg_def)
  with first_success_found [OF assms(4) d, of post] assms(1-3) d e show ?thesis
    by (simp add: handleDnsRequest_query SetReply_def new_Msg_def)
qed

text \<open>C10 with the upstreams \<open>down\<close>, \<open>empty\<close>, \<open>one\<close>: \<open>one\<close> is never called.\<close>

theorem C10_empty_answer_is_success_witness:
  "trace (handleDnsRequest stub_deps (stub_flags [''down'', ''empty'', ''one''])
            (example_request 0 [example_question]) stub_start) =
     [ClientDo \<lparr>req_ctx = WithTimeout 10000000000, req_method = ''GET'', req_url = ''down'',
         req_header = [(''Accept'', ''application/dns-json'')],
         req_query = [(''name'', ''example.com.''), (''type'', ''A'')]\<rparr>,
      Logged ''down'' (LibraryError ''connection refused''),
      ClientDo \<lparr>req_ctx = WithTimeout 10000000000, req_method = ''GET'', req_url = ''empty'',
         req_header = [(''Accept'', ''application/dns-json'')],
         req_query = [(''name'', ''example.com.''), (''type'', ''A'')]\<rparr>,
      Written ((SetReply new_Msg (example_request 0 [example_question]))\<lparr>Msg_Compress := False\<rparr>)]"
proof -
  let ?req = "example_request 0 [example_question]"
  let ?fl = "stub_flags [''down'', ''empty'', ''one'']"
  let ?pre = "[(example_question, ''down'')]"
  let ?s1 = "snd (first_success stub_deps (timeout ?fl) ?pre stub_start)"
  let ?s2 = "snd (httpGet stub_deps (DoHQuery_ctx (timeout ?fl)) ''empty''
           [(''name'', Name example_question), (''type'', TrimSpace ''A'')] ?s1)"
  have 1: "Msg_Opcode ?req = OpcodeQuery" and 2: "Msg_Question ?req \<noteq> []"
    by (simp_all add: msg_simps)
  have 3: "List.product (Msg_Question (SetReply new_Msg ?req)) (upstreams ?fl)
             = ?pre @ (example_question, ''empty'') # [(example_question, ''one'')]"
    by (simp add: msg_simps)
  have 4: "first_success stub_deps (timeout ?fl) ?pre stub_start = (None, ?s1)"
    by (simp add: DoHQuery_def msg_simps stub_simps)
  have 5: "typeToString (Qtype example_question) = Inr ''A''"
    by (simp add: msg_simps stub_simps)
  have 6: "httpGet stub_deps (DoHQuery_ctx (timeout ?fl)) ''empty''
           [(''name'', Name example_question), (''type'', TrimSpace ''A'')] ?s1 = (Inr ''empty'', ?s2)"
    by (simp add: DoHQuery_def msg_simps stub_simps)
  have 7: "json_Decode stub_deps ''empty'' = Inr (example_envelope 0 [])"
    by (simp add: stub_simps)
  have 8: "Status (example_envelope 0 []) = 0" and 9: "Response_Answer (example_envelope 0 []) = []"
    by (simp_all add: stub_simps)
  show ?thesis
    using C10_empty_answer_is_success [OF 1 2 3 4 5 6 7 8 9]
    by (simp add: DoHQuery_def Sprintf_answer_def msg_simps stub_simps)
qed

text \<open>
  C9: for a standard query with a question, when every attempt fails, the handler writes
  two messages: first the failure response (SERVFAIL), written by \<^verbatim>\<open>dns.HandleFailed\<close>
  at the end of \<^verbatim>\<open>parseQuery\<close>, then the reply built from the request, with no answer
  record, written by the last line of the handler.
\<close>

theorem C9_two_messages:
  assumes "Msg_Opcode req = OpcodeQuery" and "Msg_Question req \<noteq> []"
    and "first_success deps (timeout fl)
           (List.product (Msg_Question (SetReply new_Msg req)) (upstreams fl)) s = (None, s1)"
  shows "handleDnsRequest deps fl req s =
           emit (Written ((SetReply new_Msg req)\<lparr>Msg_Compress := False\<rparr>))
             (emit (Written (SetRcode new_Msg req RcodeServerFailure)) s1)
         \<and> written (trace (handleDnsRequest deps fl req s)) =
             written (trace s) @
               [SetRcode new_Msg req RcodeServerFailure,
                (SetReply new_Msg req)\<lparr>Msg_Compress := False\<rparr>]
         \<and> Msg_Rcode (SetRcode new_Msg req RcodeServerFailure) = RcodeServerFailure
         \<and> Msg_Answer ((SetReply new_Msg req)\<lparr>Msg_Compress := False\<rparr>) = []"
proof -
  from first_success_written [of deps "timeout fl"
         "List.product (Msg_Question (SetReply new_Msg req)) (upstreams fl)" s] assms(3)
  have "written (trace s1) = written (trace s)" by simp
  with assms show ?thesis
    by (simp add: handleDnsRequest_query emit_def written_append SetRcode_def SetReply_def new_Msg_def)
qed

text \<open>C9 with the upstreams \<open>down\<close> and \<open>status2\<close>, which both fail.\<close>

theorem C9_two_messages_witness:
  "map Msg_Rcode (written (trace (handleDnsRequest stub_deps (stub_flags [''down'', ''status2''])
            (example_request 0 [example_question]) stub_start))) = [2, 0]
   \<and> map Msg_Answer (written (trace (handleDnsRequest stub_deps (stub_flags [''down'', ''status2''])
            (example_request 0 [example_question]) stub_start))) = [[], []]"
proof -
  let ?req = "example_request 0 [example_question]"
  let ?fl = "stub_flags [''down'', ''status2'']"
  let ?s1 = "snd (first_success stub_deps (timeout ?fl)
           (List.product (Msg_Question (SetReply new_Msg ?req)) (upstreams ?fl)) stub_start)"
  have 1: "Msg_Opcode ?req = OpcodeQuery" and 2: "Msg_Question ?req \<noteq> []"
    by (simp_all add: msg_simps)
  have 3: "first_success stub_deps (timeout ?fl)
           (List.product (Msg_Question (SetReply new_Msg ?req)) (upstreams ?fl)) stub_start = (None, ?s1)"
    by (simp add: DoHQuery_def msg_simps stub_simps)
  from C9_two_messages [OF 1 2 3]
  have "written (trace (handleDnsRequest stub_deps ?fl ?req stub_start)) =
          written (trace stub_start) @
            [SetRcode new_Msg ?req RcodeServerFailure, (SetReply new_Msg ?req)\<lparr>Msg_Compress := False\<rparr>]"
    by blast
  then show ?thesis
    by (simp add: msg_simps stub_start_def)
qed

text \<open>
  C4: for a standard query with a question, when every attempt the handler makes fails
  (every upstream, on the question attempted, in the state in which it is called), the
  handler writes a failure response (SERVFAIL) with the identifier of the request; and
  every message it writes is the reply to the request up to its response code, so
  nothing of an upstream's error is in it.
\<close>

theorem C4_failure_response:
  assumes "Msg_Opcode req = OpcodeQuery" and "Msg_Question req \<noteq> []"
    and "first_success deps (timeout fl)
           (List.product (Msg_Question (SetReply new_Msg req)) (upstreams fl)) s = (None, s1)"
  shows "\<exists>ms. written (trace (handleDnsRequest deps fl req s)) = written (trace s) @ ms
           \<and> (\<exists>m \<in> set ms. Msg_Rcode m = RcodeServerFailure \<and> Msg_Id m = Msg_Id req)
           \<and> (\<forall>m \<in> set ms. m = (SetReply new_Msg req)\<lparr>Msg_Rcode := Msg_Rcode m\<rparr>)"
proof -
  let ?as = "List.product (Msg_Question (SetReply new_Msg req)) (upstreams fl)"
  from first_success_written [of deps "timeout fl" ?as s] assms(3)
  have w: "written (trace s1) = written (trace s)" by simp
  let ?ms = "[SetRcode new_Msg req RcodeServerFailure,
              (SetReply new_Msg req)\<lparr>Msg_Compress := False\<rparr>]"
  have a: "written (trace (handleDnsRequest deps fl req s)) = written (trace s) @ ?ms"
    using assms w by (simp add: handleDnsRequest_query emit_def written_append)
  have b: "\<exists>m \<in> set ?ms. Msg_Rcode m = RcodeServerFailure \<and> Msg_Id m = Msg_Id req"
    by (simp add: SetRcode_def SetReply_def)
  have c: "\<forall>m \<in> set ?ms. m = (SetReply new_Msg req)\<lparr>Msg_Rcode := Msg_Rcode m\<rparr>"
    by (simp add: SetRcode_def SetReply_def new_Msg_def)
  from a b c show ?thesis by blast
qed

text \<open>
  C4 at two runs: the upstreams \<open>down\<close>, \<open>status2\<close> and \<open>badtype\<close>, which fail with three
  different errors; and the network whose first round trip alone fails, on the request
  with two questions, where the one attempt made fails although the same call would
  succeed in the next state.
\<close>

theorem C4_failure_response_witness:
  "(\<exists>m \<in> set (written (trace (handleDnsRequest stub_deps
            (stub_flags [''down'', ''status2'', ''badtype''])
            (example_request 0 [example_question]) stub_start))).
      Msg_Rcode m = 2 \<and> Msg_Id m = 4660)
   \<and> (\<exists>m \<in> set (written (trace (handleDnsRequest flaky_deps (stub_flags [''one''])
            later_question_request stub_start))).
      Msg_Rcode m = 2 \<and> Msg_Id m = 4660)
   \<and> fst (DoHQuery flaky_deps 10 ''one'' ''example.com.'' 1 (stub_start\<lparr>world := 1\<rparr>))
       = Inr [''example.com. 300 IN A 93.184.216.34'']"
proof -
  let ?req = "example_request 0 [example_question]"
  let ?fl = "stub_flags [''down'', ''status2'', ''badtype'']"
  let ?s1 = "snd (first_success stub_deps (timeout ?fl)
           (List.product (Msg_Question (SetReply new_Msg ?req)) (upstreams ?fl)) stub_start)"
  have e: "written (trace stub_start) = []"
    by (simp add: stub_start_def)
  have 1: "Msg_Opcode ?req = OpcodeQuery" and 2: "Msg_Question ?req \<noteq> []"
    by (simp_all add: msg_simps)
  have 3: "first_success stub_deps (timeout ?fl)
           (List.product (Msg_Question (SetReply new_Msg ?req)) (upstreams ?fl)) stub_start
             = (None, ?s1)"
    by (simp add: DoHQuery_def Sprintf_answer_def msg_simps stub_simps)
  from C4_failure_response [OF 1 2 3]
  obtain ms where
    w: "written (trace (handleDnsRequest stub_deps ?fl ?req stub_start))
          = written (trace stub_start) @ ms"
    and m: "\<exists>m \<in> set ms. Msg_Rcode m = RcodeServerFailure \<and> Msg_Id m = Msg_Id ?req"
    by blast
  from w e have "written (trace (handleDnsRequest stub_deps ?fl ?req stub_start)) = ms"
    by simp
  with m have a: "\<exists>m \<in> set (written (trace (handleDnsRequest stub_deps ?fl ?req stub_start))).
      Msg_Rcode m = 2 \<and> Msg_Id m = 4660"
    by (simp add: example_request_def new_Msg_def RcodeServerFailure_def)
  let ?fl2 = "stub_flags [''one'']"
  let ?t1 = "snd (first_success flaky_deps (timeout ?fl2)
           (List.product (Msg_Question (SetReply new_Msg later_question_request)) (upstreams ?fl2))
           stub_start)"
  have 4: "Msg_Opcode later_question_request = OpcodeQuery"
    and 5: "Msg_Question later_question_request \<noteq> []"
    by (simp_all add: later_question_request_def msg_simps)
  have 6: "first_success flaky_deps (timeout ?fl2)
           (List.product (Msg_Question (SetReply new_Msg later_question_request)) (upstreams ?fl2))
           stub_start = (None, ?t1)"
    by (simp add: later_question_request_def flaky_deps_def DoHQuery_def Sprintf_answer_def
          msg_simps stub_simps)
  from C4_failure_response [OF 4 5 6]
  obtain ms2 where
    w2: "written (trace (handleDnsRequest flaky_deps ?fl2 later_question_request stub_start))
          = written (trace stub_start) @ ms2"
    and m2: "\<exists>m \<in> set ms2. Msg_Rcode m = RcodeServerFailure
               \<and> Msg_Id m = Msg_Id later_question_request"
    by blast
  from w2 e
  have "written (trace (handleDnsRequest flaky_deps ?fl2 later_question_request stub_start)) = ms2"
    by simp
  with m2 have b: "\<exists>m \<in> set (written (trace (handleDnsRequest flaky_deps ?fl2
        later_question_request stub_start))). Msg_Rcode m = 2 \<and> Msg_Id m = 4660"
    by (simp add: later_question_request_def example_request_def new_Msg_def
          RcodeServerFailure_def)
  have c: "fst (DoHQuery flaky_deps 10 ''one'' ''example.com.'' 1 (stub_start\<lparr>world := 1\<rparr>))
       = Inr [''example.com. 300 IN A 93.184.216.34'']"
    by (simp add: flaky_deps_def DoHQuery_def Sprintf_answer_def stub_simps)
  from a b c show ?thesis by blast
qed

end
